theory Spec2Isabelle
  imports Complex_Main
begin

section \<open>The values the page script computes with\<close>

text \<open>
  The script (\<^verbatim>\<open>src/static/app.js\<close>, and its earlier revision
  \<^verbatim>\<open>src/unnamed/part_001\<close>) is dynamically typed: the object it renders is whatever
  \<^verbatim>\<open>response.json()\<close> produced. The model therefore works on the untyped value
  universe of parsed JSON, extended with \<^verbatim>\<open>undefined\<close> (the result of reading an absent
  property).

  A number is its exact mathematical value (every binary64 value is a rational) or one of the
  three non-finite values. A string is the list of bytes of its UTF-8 encoding; the script only
  concatenates strings, tests them for emptiness and compares them with ASCII literals, and
  these operations do not depend on the encoding.
  An object is the list of its own properties in enumeration order, each key once.
\<close>

datatype jsnum = Fin rat | NaN | PosInf | NegInf

datatype js =
    Undefined
  | Null
  | Bool bool
  | Num jsnum
  | Str string
  | Arr "js list"
  | Obj "(string \<times> js) list"

text \<open>
  Exceptions. The engine raises a \<^verbatim>\<open>TypeError\<close> when a property of
  \<^verbatim>\<open>undefined\<close>/\<^verbatim>\<open>null\<close> is read, when a value that is not a function is called,
  and when an object cannot be converted to a primitive. Any other error object (a rejected
  \<^verbatim>\<open>fetch\<close>, a body that is not JSON) is represented by its \<^verbatim>\<open>message\<close>.
\<close>

datatype te_reason = NullishRead string | NotCallable string | NotPrimitive

datatype jserr = TypeError te_reason | OtherError string

text \<open>
  What the host decides and the script does not: the digits \<^verbatim>\<open>Number::toString\<close>
  prints for a finite number that is not a small integer (the shortest digits that read back
  as the same binary64 value), the number a string denotes (\<^verbatim>\<open>StringToNumber\<close>), and the
  wording of the engine's \<^verbatim>\<open>TypeError\<close> messages.
\<close>

record host =
  num_to_string :: "rat \<Rightarrow> string"
  str_to_num :: "string \<Rightarrow> jsnum"
  type_error_msg :: "te_reason \<Rightarrow> string"

fun message_of :: "host \<Rightarrow> jserr \<Rightarrow> string" where
  "message_of H (TypeError r) = type_error_msg H r"
| "message_of H (OtherError m) = m"

definition bnd :: "'e + 'a \<Rightarrow> ('a \<Rightarrow> 'e + 'b) \<Rightarrow> 'e + 'b" where
  "bnd m f = (case m of Inl e \<Rightarrow> Inl e | Inr v \<Rightarrow> f v)"

subsection \<open>Truthiness and property reads\<close>

fun truthy :: "js \<Rightarrow> bool" where
  "truthy Undefined = False"
| "truthy Null = False"
| "truthy (Bool b) = b"
| "truthy (Num (Fin q)) = (q \<noteq> 0)"
| "truthy (Num NaN) = False"
| "truthy (Num PosInf) = True"
| "truthy (Num NegInf) = True"
| "truthy (Str s) = (s \<noteq> [])"
| "truthy (Arr xs) = True"
| "truthy (Obj kvs) = True"

text \<open>
  \<^verbatim>\<open>v.name\<close> for the data properties the script reads (\<^verbatim>\<open>status\<close>, \<^verbatim>\<open>steps\<close>,
  \<^verbatim>\<open>variable\<close>, \<^verbatim>\<open>formula\<close>, \<^verbatim>\<open>value\<close>, \<^verbatim>\<open>is_fallback\<close>, \<^verbatim>\<open>card_id\<close>,
  \<^verbatim>\<open>selection_reason\<close>, \<^verbatim>\<open>inputs\<close>, \<^verbatim>\<open>output_var\<close>, \<^verbatim>\<open>output_value\<close>,
  \<^verbatim>\<open>missing_inputs\<close>, \<^verbatim>\<open>reason\<close>, \<^verbatim>\<open>message\<close>): none of these names is defined by a
  built-in prototype, so the read yields the own property or \<^verbatim>\<open>undefined\<close>, and throws on
  \<^verbatim>\<open>undefined\<close> and \<^verbatim>\<open>null\<close>.
\<close>

fun getp :: "js \<Rightarrow> string \<Rightarrow> jserr + js" where
  "getp Undefined k = Inl (TypeError (NullishRead k))"
| "getp Null k = Inl (TypeError (NullishRead k))"
| "getp (Obj kvs) k = Inr (case map_of kvs k of None \<Rightarrow> Undefined | Some v \<Rightarrow> v)"
| "getp v k = Inr Undefined"

text \<open>The same read on a value known not to be \<^verbatim>\<open>undefined\<close> or \<^verbatim>\<open>null\<close>.\<close>

fun prop_of :: "js \<Rightarrow> string \<Rightarrow> js" where
  "prop_of (Obj kvs) k = (case map_of kvs k of None \<Rightarrow> Undefined | Some v \<Rightarrow> v)"
| "prop_of v k = Undefined"

subsection \<open>Numbers to strings\<close>

definition digit_char :: "nat \<Rightarrow> char" where
  "digit_char d = char_of (48 + d)"

function dec_str :: "nat \<Rightarrow> string" where
  "dec_str n = (if n < 10 then [digit_char n] else dec_str (n div 10) @ [digit_char (n mod 10)])"
  by pat_completeness auto
termination
  by (relation "measure id") auto

declare dec_str.simps [simp del]

definition is_int :: "rat \<Rightarrow> bool" where
  "is_int q = (of_int \<lfloor>q\<rfloor> = q)"

text \<open>
  \<^verbatim>\<open>Number::toString\<close>. For an integer of magnitude at most \<open>2^53\<close> the result is its
  decimal digits; the other finite values are printed by the host.
\<close>

fun num_str :: "host \<Rightarrow> jsnum \<Rightarrow> string" where
  "num_str H NaN = ''NaN''"
| "num_str H PosInf = ''Infinity''"
| "num_str H NegInf = ''-Infinity''"
| "num_str H (Fin q) =
     (if is_int q \<and> \<bar>q\<bar> \<le> 2 ^ 53
      then (if q < 0 then ''-'' else []) @ dec_str (nat \<lfloor>\<bar>q\<bar>\<rfloor>)
      else num_to_string H q)"

text \<open>
  \<^verbatim>\<open>Number.prototype.toFixed(4)\<close>, following ECMA-262: a non-finite value prints as
  \<^verbatim>\<open>Number::toString\<close> does; otherwise the sign is split off, a magnitude of \<open>10^21\<close> or
  more prints as \<^verbatim>\<open>Number::toString\<close> does, and below that \<open>n\<close> is the integer for which
  \<open>n / 10^4\<close> is closest to the magnitude (the larger one on a tie), printed with a point
  before its last four digits, after padding with zeros on the left to five digits.
\<close>

definition pad_left :: "nat \<Rightarrow> string \<Rightarrow> string" where
  "pad_left w s = replicate (w - length s) (CHR ''0'') @ s"

definition fixed_digits :: "nat \<Rightarrow> string" where
  "fixed_digits n =
     (let m = pad_left 5 (dec_str n); k = length m
      in take (k - 4) m @ ''.'' @ drop (k - 4) m)"

fun toFixed4 :: "host \<Rightarrow> jsnum \<Rightarrow> string" where
  "toFixed4 H NaN = ''NaN''"
| "toFixed4 H PosInf = ''Infinity''"
| "toFixed4 H NegInf = ''-Infinity''"
| "toFixed4 H (Fin q) =
     (let s = (if q < 0 then ''-'' else []); x = \<bar>q\<bar>
      in if x \<ge> 10 ^ 21 then s @ num_str H (Fin x)
         else s @ fixed_digits (nat \<lfloor>x * 10 ^ 4 + 1 / 2\<rfloor>))"

subsection \<open>Conversions to string and to number\<close>

text \<open>
  \<^verbatim>\<open>ToString\<close>. An array converts through \<^verbatim>\<open>Array.prototype.join\<close> with a comma, where
  \<^verbatim>\<open>undefined\<close> and \<^verbatim>\<open>null\<close> elements give the empty string. A plain object converts
  through \<^verbatim>\<open>Object.prototype.toString\<close>, unless it has an own property \<^verbatim>\<open>toString\<close>:
  a parsed JSON value is never callable, the inherited \<^verbatim>\<open>valueOf\<close> returns the object
  itself, and the conversion ends in a \<^verbatim>\<open>TypeError\<close>.
\<close>

fun to_str :: "host \<Rightarrow> js \<Rightarrow> jserr + string"
  and join_str :: "host \<Rightarrow> string \<Rightarrow> js list \<Rightarrow> jserr + string"
  and elem_str :: "host \<Rightarrow> js \<Rightarrow> jserr + string"
where
  "to_str H Undefined = Inr ''undefined''"
| "to_str H Null = Inr ''null''"
| "to_str H (Bool b) = Inr (if b then ''true'' else ''false'')"
| "to_str H (Num n) = Inr (num_str H n)"
| "to_str H (Str s) = Inr s"
| "to_str H (Arr xs) = join_str H '','' xs"
| "to_str H (Obj kvs) =
     (if ''toString'' \<in> fst ` set kvs then Inl (TypeError NotPrimitive)
      else Inr ''[object Object]'')"
| "join_str H sep [] = Inr []"
| "join_str H sep [x] = elem_str H x"
| "join_str H sep (x # y # ys) =
     (case elem_str H x of
        Inl e \<Rightarrow> Inl e
      | Inr a \<Rightarrow> (case join_str H sep (y # ys) of
                   Inl e \<Rightarrow> Inl e
                 | Inr b \<Rightarrow> Inr (a @ sep @ b)))"
| "elem_str H Undefined = Inr []"
| "elem_str H Null = Inr []"
| "elem_str H (Bool b) = to_str H (Bool b)"
| "elem_str H (Num n) = to_str H (Num n)"
| "elem_str H (Str s) = to_str H (Str s)"
| "elem_str H (Arr xs) = to_str H (Arr xs)"
| "elem_str H (Obj kvs) = to_str H (Obj kvs)"

text \<open>
  \<^verbatim>\<open>Number(v)\<close>. An array or object is first converted to a primitive with hint
  \<^verbatim>\<open>number\<close>: \<^verbatim>\<open>valueOf\<close> yields no primitive, so the string conversion above decides.
\<close>

fun to_num :: "host \<Rightarrow> js \<Rightarrow> jserr + jsnum" where
  "to_num H Undefined = Inr NaN"
| "to_num H Null = Inr (Fin 0)"
| "to_num H (Bool b) = Inr (Fin (if b then 1 else 0))"
| "to_num H (Num n) = Inr n"
| "to_num H (Str s) = Inr (str_to_num H s)"
| "to_num H (Arr xs) = bnd (to_str H (Arr xs)) (\<lambda>s. Inr (str_to_num H s))"
| "to_num H (Obj kvs) = bnd (to_str H (Obj kvs)) (\<lambda>s. Inr (str_to_num H s))"


subsection \<open>\<^verbatim>\<open>JSON.stringify\<close>\<close>

definition dq :: string where
  "dq = [CHR 0x22]"

definition hex_char :: "nat \<Rightarrow> char" where
  "hex_char d = (if d < 10 then char_of (48 + d) else char_of (87 + d))"

text \<open>\<^verbatim>\<open>QuoteJSONString\<close>, on the bytes of the string.\<close>

definition quote_char :: "char \<Rightarrow> string" where
  "quote_char c =
     (if c = CHR 0x08 then [CHR 0x5C, CHR ''b'']
      else if c = CHR 0x09 then [CHR 0x5C, CHR ''t'']
      else if c = CHR 0x0A then [CHR 0x5C, CHR ''n'']
      else if c = CHR 0x0C then [CHR 0x5C, CHR ''f'']
      else if c = CHR 0x0D then [CHR 0x5C, CHR ''r'']
      else if c = CHR 0x22 then [CHR 0x5C, CHR 0x22]
      else if c = CHR 0x5C then [CHR 0x5C, CHR 0x5C]
      else if (of_char c :: nat) < 32
        then [CHR 0x5C, CHR ''u'', CHR ''0'', CHR ''0'',
              hex_char (of_char c div 16), hex_char (of_char c mod 16)]
      else [c])"

definition quote_json :: "string \<Rightarrow> string" where
  "quote_json s = dq @ concat (map quote_char s) @ dq"

fun join_with :: "string \<Rightarrow> string list \<Rightarrow> string" where
  "join_with sep [] = []"
| "join_with sep [s] = s"
| "join_with sep (s # t # ts) = s @ sep @ join_with sep (t # ts)"

text \<open>
  \<^verbatim>\<open>SerializeJSONProperty\<close> with gap \<open>gap\<close> at indentation \<open>ind\<close>; \<open>None\<close> is
  \<^verbatim>\<open>undefined\<close>. A non-finite number prints as \<^verbatim>\<open>null\<close>, an \<^verbatim>\<open>undefined\<close> array
  element prints as \<^verbatim>\<open>null\<close>, an \<^verbatim>\<open>undefined\<close> member is left out. An own property
  \<^verbatim>\<open>toJSON\<close> of parsed JSON is not callable and is ignored.
\<close>

fun ser :: "host \<Rightarrow> string \<Rightarrow> string \<Rightarrow> js \<Rightarrow> string option"
  and ser_elems :: "host \<Rightarrow> string \<Rightarrow> string \<Rightarrow> js list \<Rightarrow> string list"
  and ser_members :: "host \<Rightarrow> string \<Rightarrow> string \<Rightarrow> (string \<times> js) list \<Rightarrow> string list"
where
  "ser H gap ind Undefined = None"
| "ser H gap ind Null = Some ''null''"
| "ser H gap ind (Bool b) = Some (if b then ''true'' else ''false'')"
| "ser H gap ind (Num (Fin q)) = Some (num_str H (Fin q))"
| "ser H gap ind (Num NaN) = Some ''null''"
| "ser H gap ind (Num PosInf) = Some ''null''"
| "ser H gap ind (Num NegInf) = Some ''null''"
| "ser H gap ind (Str s) = Some (quote_json s)"
| "ser H gap ind (Arr xs) =
     (let parts = ser_elems H gap (ind @ gap) xs
      in Some (if parts = [] then ''[]''
               else if gap = [] then ''['' @ join_with '','' parts @ '']''
               else ''[\<newline>'' @ ind @ gap @ join_with ('',\<newline>'' @ ind @ gap) parts
                      @ ''\<newline>'' @ ind @ '']''))"
| "ser H gap ind (Obj kvs) =
     (let parts = ser_members H gap (ind @ gap) kvs
      in Some (if parts = [] then ''{}''
               else if gap = [] then ''{'' @ join_with '','' parts @ ''}''
               else ''{\<newline>'' @ ind @ gap @ join_with ('',\<newline>'' @ ind @ gap) parts
                      @ ''\<newline>'' @ ind @ ''}''))"
| "ser_elems H gap ind [] = []"
| "ser_elems H gap ind (x # xs) =
     (case ser H gap ind x of None \<Rightarrow> ''null'' | Some s \<Rightarrow> s) # ser_elems H gap ind xs"
| "ser_members H gap ind [] = []"
| "ser_members H gap ind (kv # kvs) =
     (case ser H gap ind (snd kv) of
        None \<Rightarrow> ser_members H gap ind kvs
      | Some s \<Rightarrow> (quote_json (fst kv) @ '':'' @ (if gap = [] then [] else '' '') @ s)
                  # ser_members H gap ind kvs)"

definition json_stringify :: "host \<Rightarrow> js \<Rightarrow> string option" where
  "json_stringify H v = ser H [] [] v"

definition json_stringify2 :: "host \<Rightarrow> js \<Rightarrow> string option" where
  "json_stringify2 H v = ser H ''  '' [] v"

text \<open>A template literal prints \<^verbatim>\<open>undefined\<close> for an absent value.\<close>

definition or_undefined :: "string option \<Rightarrow> string" where
  "or_undefined r = (case r of None \<Rightarrow> ''undefined'' | Some s \<Rightarrow> s)"

section \<open>The page\<close>

text \<open>The fixed texts of the page, as UTF-8.\<close>

definition lbl_all_topics :: string where
  "lbl_all_topics = [CHR 0xE5, CHR 0x85, CHR 0xA8, CHR 0xE9, CHR 0x83, CHR 0xA8,
     CHR 0xE4, CHR 0xB8, CHR 0xBB, CHR 0xE9, CHR 0xA1, CHR 0x8C]"

definition lbl_formula :: string where
  "lbl_formula = [CHR 0xE5, CHR 0x85, CHR 0xAC, CHR 0xE5, CHR 0xBC, CHR 0x8F]"

definition lbl_status :: string where
  "lbl_status = [CHR 0xE7, CHR 0x8B, CHR 0x80, CHR 0xE6, CHR 0x85, CHR 0x8B,
     CHR 0xEF, CHR 0xBC, CHR 0x9A]"

definition lbl_success :: string where
  "lbl_success = [CHR 0xE6, CHR 0x88, CHR 0x90, CHR 0xE5, CHR 0x8A, CHR 0x9F]"

definition lbl_mode :: string where
  "lbl_mode = [CHR 0xE8, CHR 0xA8, CHR 0x88, CHR 0xE7, CHR 0xAE, CHR 0x97,
     CHR 0xE6, CHR 0xA8, CHR 0xA1, CHR 0xE5, CHR 0xBC, CHR 0x8F, CHR 0xEF, CHR 0xBC, CHR 0x9A]"

definition lbl_card :: string where
  "lbl_card = [CHR 0xE4, CHR 0xBD, CHR 0xBF, CHR 0xE7, CHR 0x94, CHR 0xA8,
     CHR 0xE5, CHR 0x8D, CHR 0xA1, CHR 0xE7, CHR 0x89, CHR 0x87, CHR 0xEF, CHR 0xBC, CHR 0x9A]"

definition lbl_llm_reason :: string where
  "lbl_llm_reason = ''LLM '' @ [CHR 0xE9, CHR 0x81, CHR 0xB8, CHR 0xE6, CHR 0x93, CHR 0x87,
     CHR 0xE7, CHR 0x90, CHR 0x86, CHR 0xE7, CHR 0x94, CHR 0xB1, CHR 0xEF, CHR 0xBC, CHR 0x9A]"

definition lbl_inputs :: string where
  "lbl_inputs = [CHR 0xE8, CHR 0xBC, CHR 0xB8, CHR 0xE5, CHR 0x85, CHR 0xA5,
     CHR 0xE5, CHR 0x80, CHR 0xBC, CHR 0xEF, CHR 0xBC, CHR 0x9A]"

definition lbl_steps :: string where
  "lbl_steps = [CHR 0xE8, CHR 0xA8, CHR 0x88, CHR 0xE7, CHR 0xAE, CHR 0x97,
     CHR 0xE6, CHR 0xAD, CHR 0xA5, CHR 0xE9, CHR 0xA9, CHR 0x9F, CHR 0xEF, CHR 0xBC, CHR 0x9A]"

definition lbl_missing :: string where
  "lbl_missing = [CHR 0xE7, CHR 0xBC, CHR 0xBA, CHR 0xE5, CHR 0xB0, CHR 0x91,
     CHR 0xE6, CHR 0xAC, CHR 0x84, CHR 0xE4, CHR 0xBD, CHR 0x8D, CHR 0xEF, CHR 0xBC, CHR 0x9A]"

definition lbl_refused :: string where
  "lbl_refused = [CHR 0xE6, CHR 0x8B, CHR 0x92, CHR 0xE7, CHR 0xB5, CHR 0x95]"

definition lbl_reason :: string where
  "lbl_reason = [CHR 0xE5, CHR 0x8E, CHR 0x9F, CHR 0xE5, CHR 0x9B, CHR 0xA0,
     CHR 0xEF, CHR 0xBC, CHR 0x9A]"

definition lbl_unknown :: string where
  "lbl_unknown = [CHR 0xE7, CHR 0xB3, CHR 0xBB, CHR 0xE7, CHR 0xB5, CHR 0xB1,
     CHR 0xE7, CHR 0x99, CHR 0xBC, CHR 0xE7, CHR 0x94, CHR 0x9F, CHR 0xE6, CHR 0x9C, CHR 0xAA,
     CHR 0xE7, CHR 0x9F, CHR 0xA5, CHR 0xE9, CHR 0x8C, CHR 0xAF, CHR 0xE8, CHR 0xAA, CHR 0xA4]"

definition lbl_why :: string where
  "lbl_why = [CHR 0xE7, CHR 0x90, CHR 0x86, CHR 0xE7, CHR 0x94, CHR 0xB1,
     CHR 0xEF, CHR 0xBC, CHR 0x9A]"

definition lbl_steps_old :: string where
  "lbl_steps_old = [CHR 0xE6, CHR 0xAD, CHR 0xA5, CHR 0xE9, CHR 0xA9, CHR 0x9F,
     CHR 0xEF, CHR 0xBC, CHR 0x9A]"

definition lbl_output :: string where
  "lbl_output = [CHR 0xE8, CHR 0xBC, CHR 0xB8, CHR 0xE5, CHR 0x87, CHR 0xBA,
     CHR 0xEF, CHR 0xBC, CHR 0x9A]"

text \<open>
  The part of the document the script reads and writes: the value of the domain select, of
  the topic select and of the question field, the options of the topic select (value and
  text of each), the class list of the loader, the \<^verbatim>\<open>disabled\<close> flag of the form's button,
  and the class list and content of the result element. The content is what was last
  assigned, to \<^verbatim>\<open>textContent\<close> or to \<^verbatim>\<open>innerHTML\<close>; how the browser parses
  assigned markup is outside the model.
\<close>

datatype content = TextContent string | InnerHTML string

record page =
  domain_value :: string
  topic_value :: string
  question_value :: string
  topic_options :: "(string \<times> string) list"
  loader_classes :: "string set"
  button_disabled :: bool
  result_classes :: "string set"
  result_content :: content


section \<open>The script\<close>

subsection \<open>\<^verbatim>\<open>updateTopicOptions\<close>\<close>

text \<open>
  \<^verbatim>\<open>window.TOPIC_OPTIONS\<close> is the domain-to-topics mapping the page was served with: the
  own properties of an object whose values are arrays of strings, or absent.
  \<^verbatim>\<open>topicOptions[domain]\<close> finds an own property, or else a member of
  \<^verbatim>\<open>Object.prototype\<close>, or else nothing.
\<close>

type_synonym topic_table = "(string \<times> string list) list"

definition object_prototype_names :: "string list" where
  "object_prototype_names =
     [''constructor'', ''__defineGetter__'', ''__defineSetter__'', ''hasOwnProperty'',
      ''__lookupGetter__'', ''__lookupSetter__'', ''isPrototypeOf'', ''propertyIsEnumerable'',
      ''toString'', ''valueOf'', ''__proto__'', ''toLocaleString'']"

datatype lookup = Own "string list" | Inherited | Absent

definition table_get :: "topic_table \<Rightarrow> string \<Rightarrow> lookup" where
  "table_get t k =
     (case map_of t k of
        Some ts \<Rightarrow> Own ts
      | None \<Rightarrow> if k \<in> set object_prototype_names then Inherited else Absent)"

text \<open>
  Assigning the one-option markup to \<^verbatim>\<open>innerHTML\<close> leaves the select with that option,
  selected, so its value is empty; each topic is then appended as an option whose value and
  text are the topic. An inherited member is truthy and has no \<^verbatim>\<open>forEach\<close>: the call
  throws after the options were reset.
\<close>

definition updateTopicOptions :: "topic_table option \<Rightarrow> page \<Rightarrow> page \<times> jserr option" where
  "updateTopicOptions tbl p =
     (let topicOptions = (case tbl of None \<Rightarrow> [] | Some t \<Rightarrow> t);
          domain = domain_value p;
          topics = (if domain \<noteq> []
                    then (case table_get topicOptions domain of
                            Own ts \<Rightarrow> Own ts | Inherited \<Rightarrow> Inherited | Absent \<Rightarrow> Own [])
                    else Own []);
          p1 = p\<lparr>topic_options := [([], lbl_all_topics)], topic_value := []\<rparr>
      in case topics of
           Own ts \<Rightarrow> (p1\<lparr>topic_options := topic_options p1 @ map (\<lambda>topic. (topic, topic)) ts\<rparr>, None)
         | _ \<Rightarrow> (p1, Some (TypeError (NotCallable ''forEach''))))"

subsection \<open>\<^verbatim>\<open>setLoading\<close>\<close>

definition setLoading :: "bool \<Rightarrow> page \<Rightarrow> page" where
  "setLoading isLoading p =
     p\<lparr>loader_classes :=
          (if \<not> isLoading then insert ''hidden'' (loader_classes p)
           else loader_classes p - {''hidden''}),
        button_disabled := isLoading\<rparr>"

subsection \<open>\<^verbatim>\<open>renderResult\<close> of \<^verbatim>\<open>src/static/app.js\<close>\<close>

text \<open>
  \<^verbatim>\<open>steps.map(f)\<close>: only an array has a callable \<^verbatim>\<open>map\<close>. The callback receives the
  element and its index (an array index, below \<open>2^32\<close>), and the first exception ends the
  loop.
\<close>

fun map_from :: "(nat \<Rightarrow> js \<Rightarrow> jserr + string) \<Rightarrow> nat \<Rightarrow> js list \<Rightarrow> jserr + string list" where
  "map_from f i [] = Inr []"
| "map_from f i (x # xs) =
     (case f i x of
        Inl e \<Rightarrow> Inl e
      | Inr y \<Rightarrow> (case map_from f (Suc i) xs of Inl e \<Rightarrow> Inl e | Inr ys \<Rightarrow> Inr (y # ys)))"

fun call_map :: "js \<Rightarrow> (nat \<Rightarrow> js \<Rightarrow> jserr + string) \<Rightarrow> jserr + string list" where
  "call_map (Arr xs) f = map_from f 0 xs"
| "call_map Undefined f = Inl (TypeError (NullishRead ''map''))"
| "call_map Null f = Inl (TypeError (NullishRead ''map''))"
| "call_map v f = Inl (TypeError (NotCallable ''map''))"

text \<open>\<^verbatim>\<open>v.join(sep)\<close> for a value \<open>v\<close> that is not \<^verbatim>\<open>undefined\<close> or \<^verbatim>\<open>null\<close>.\<close>

fun call_join :: "host \<Rightarrow> js \<Rightarrow> string \<Rightarrow> jserr + string" where
  "call_join H (Arr xs) sep = join_str H sep xs"
| "call_join H Undefined sep = Inl (TypeError (NullishRead ''join''))"
| "call_join H Null sep = Inl (TypeError (NullishRead ''join''))"
| "call_join H v sep = Inl (TypeError (NotCallable ''join''))"

text \<open>
  The truth value of \<^verbatim>\<open>v?.length\<close>: the length of an array or string, the own property
  \<^verbatim>\<open>length\<close> of an object, and \<^verbatim>\<open>undefined\<close> otherwise.
\<close>

fun length_truthy :: "js \<Rightarrow> bool" where
  "length_truthy (Arr xs) = (xs \<noteq> [])"
| "length_truthy (Str s) = (s \<noteq> [])"
| "length_truthy (Obj kvs) = (case map_of kvs ''length'' of None \<Rightarrow> False | Some v \<Rightarrow> truthy v)"
| "length_truthy v = False"

text \<open>The callback of \<^verbatim>\<open>data.steps.map\<close>: one list item per step.\<close>

definition step_item :: "host \<Rightarrow> nat \<Rightarrow> js \<Rightarrow> jserr + string" where
  "step_item H idx step =
     bnd (getp step ''variable'') (\<lambda>var. bnd (to_str H var) (\<lambda>var_s.
     bnd (getp step ''formula'') (\<lambda>formula.
     bnd (to_str H (if truthy formula then formula else Str lbl_formula)) (\<lambda>formula_s.
     bnd (getp step ''value'') (\<lambda>val. bnd (to_num H val) (\<lambda>n.
     Inr (''<li><code>'' @ dec_str (idx + 1) @ ''. '' @ var_s @ '' = '' @ formula_s
          @ '' = '' @ toFixed4 H n @ ''</code></li>'')))))))"

definition success_html :: "host \<Rightarrow> js \<Rightarrow> jserr + string" where
  "success_html H data =
     bnd (getp data ''steps'') (\<lambda>steps. bnd (call_map steps (step_item H)) (\<lambda>items.
     let stepsList = concat items in
     bnd (getp data ''is_fallback'') (\<lambda>fb.
     let calcMode = (if truthy fb then ''LLM fallback'' else ''SymPy'');
         modeClass = (if truthy fb then ''badge-llm'' else ''badge-sympy'') in
     bnd (getp data ''card_id'') (\<lambda>card_id. bnd (to_str H card_id) (\<lambda>card_s.
     bnd (getp data ''selection_reason'') (\<lambda>reason. bnd (to_str H reason) (\<lambda>reason_s.
     bnd (getp data ''inputs'') (\<lambda>inputs.
     let inputs_s = or_undefined (json_stringify2 H inputs) in
     bnd (getp data ''output_var'') (\<lambda>ovar. bnd (to_str H ovar) (\<lambda>ovar_s.
     bnd (getp data ''output_value'') (\<lambda>oval. bnd (to_str H oval) (\<lambda>oval_s.
     Inr (''\<newline>      <div class='' @ dq @ ''meta-row'' @ dq @ ''>''
        @ ''\<newline>        <span>'' @ lbl_status @ ''<strong>'' @ lbl_success @ ''</strong></span>''
        @ ''\<newline>        <span>'' @ lbl_mode @ ''<span class='' @ dq @ ''badge '' @ modeClass @ dq
            @ ''>'' @ calcMode @ ''</span></span>''
        @ ''\<newline>      </div>''
        @ ''\<newline>      <p>'' @ lbl_card @ ''<code>'' @ card_s @ ''</code></p>''
        @ ''\<newline>      <p>'' @ lbl_llm_reason @ reason_s @ ''</p>''
        @ ''\<newline>      <p>'' @ lbl_inputs @ ''</p>''
        @ ''\<newline>      <pre>'' @ inputs_s @ ''</pre>''
        @ ''\<newline>      <p>'' @ lbl_steps @ ''</p>''
        @ ''\<newline>      <ol class='' @ dq @ ''steps-list'' @ dq @ ''>'' @ stepsList @ ''</ol>''
        @ ''\<newline>      <p class='' @ dq @ ''result-output'' @ dq @ ''>'' @ ovar_s
            @ '' = <strong>'' @ oval_s @ ''</strong></p>''
        @ ''\<newline>    '')))))))))))))"

definition refused_html :: "host \<Rightarrow> js \<Rightarrow> jserr + string" where
  "refused_html H data =
     bnd (getp data ''missing_inputs'') (\<lambda>mi.
     bnd (if length_truthy mi
          then bnd (call_join H mi '', '') (\<lambda>names. Inr (''<p>'' @ lbl_missing @ names @ ''</p>''))
          else Inr []) (\<lambda>missing.
     bnd (getp data ''reason'') (\<lambda>reason. bnd (to_str H reason) (\<lambda>reason_s.
     Inr (''\<newline>      <p>'' @ lbl_status @ ''<strong>'' @ lbl_refused @ ''</strong></p>''
        @ ''\<newline>      <p>'' @ lbl_reason @ reason_s @ ''</p>''
        @ ''\<newline>      '' @ missing
        @ ''\<newline>    '')))))"

text \<open>The last branch, shared by both revisions: \<^verbatim>\<open>data.message || "..."\<close> as text.\<close>

definition error_text :: "host \<Rightarrow> js \<Rightarrow> jserr + string" where
  "error_text H data =
     bnd (getp data ''message'') (\<lambda>m. to_str H (if truthy m then m else Str lbl_unknown))"

definition render_content :: "host \<Rightarrow> js \<Rightarrow> jserr + content" where
  "render_content H data =
     bnd (getp data ''status'') (\<lambda>status.
       if status = Str ''success'' then bnd (success_html H data) (\<lambda>s. Inr (InnerHTML s))
       else if status = Str ''refused'' then bnd (refused_html H data) (\<lambda>s. Inr (InnerHTML s))
       else bnd (error_text H data) (\<lambda>s. Inr (TextContent s)))"

text \<open>
  \<^verbatim>\<open>renderResult\<close> first removes \<^verbatim>\<open>hidden\<close> from the result element; the content is
  assigned last, so an exception leaves the previous content in place.
\<close>

definition renderResult :: "host \<Rightarrow> js \<Rightarrow> page \<Rightarrow> page \<times> jserr option" where
  "renderResult H data p =
     (let p1 = p\<lparr>result_classes := result_classes p - {''hidden''}\<rparr>
      in case render_content H data of
           Inl e \<Rightarrow> (p1, Some e)
         | Inr c \<Rightarrow> (p1\<lparr>result_content := c\<rparr>, None))"

subsection \<open>\<^verbatim>\<open>renderResult\<close> of the earlier revision, \<^verbatim>\<open>src/unnamed/part_001\<close>\<close>

text \<open>\<^verbatim>\<open>v.toFixed(4)\<close>: only a number has the method.\<close>

fun call_toFixed4 :: "host \<Rightarrow> js \<Rightarrow> jserr + string" where
  "call_toFixed4 H (Num n) = Inr (toFixed4 H n)"
| "call_toFixed4 H Undefined = Inl (TypeError (NullishRead ''toFixed''))"
| "call_toFixed4 H Null = Inl (TypeError (NullishRead ''toFixed''))"
| "call_toFixed4 H v = Inl (TypeError (NotCallable ''toFixed''))"

definition step_line_old :: "host \<Rightarrow> nat \<Rightarrow> js \<Rightarrow> jserr + string" where
  "step_line_old H idx step =
     bnd (getp step ''variable'') (\<lambda>var. bnd (to_str H var) (\<lambda>var_s.
     bnd (getp step ''formula'') (\<lambda>formula. bnd (to_str H formula) (\<lambda>formula_s.
     bnd (getp step ''value'') (\<lambda>val. bnd (call_toFixed4 H val) (\<lambda>val_s.
     Inr (dec_str (idx + 1) @ ''. '' @ var_s @ '' = '' @ formula_s @ '' = '' @ val_s)))))))"

definition success_text_old :: "host \<Rightarrow> js \<Rightarrow> jserr + string" where
  "success_text_old H data =
     bnd (getp data ''steps'') (\<lambda>steps. bnd (call_map steps (step_line_old H)) (\<lambda>lines.
     let stepsText = join_with ''\<newline>'' lines in
     bnd (getp data ''card_id'') (\<lambda>card_id. bnd (to_str H card_id) (\<lambda>card_s.
     bnd (getp data ''selection_reason'') (\<lambda>reason. bnd (to_str H reason) (\<lambda>reason_s.
     bnd (getp data ''inputs'') (\<lambda>inputs.
     let inputs_s = or_undefined (json_stringify2 H inputs) in
     bnd (getp data ''output_var'') (\<lambda>ovar. bnd (to_str H ovar) (\<lambda>ovar_s.
     bnd (getp data ''output_value'') (\<lambda>oval. bnd (to_str H oval) (\<lambda>oval_s.
     Inr (join_with ''\<newline>\<newline>''
           [lbl_status @ lbl_success,
            lbl_card @ card_s,
            lbl_why @ reason_s,
            lbl_inputs @ inputs_s,
            lbl_steps_old @ ''\<newline>'' @ stepsText,
            lbl_output @ ovar_s @ '' = '' @ oval_s]))))))))))))"

definition refused_text_old :: "host \<Rightarrow> js \<Rightarrow> jserr + string" where
  "refused_text_old H data =
     bnd (getp data ''reason'') (\<lambda>reason. bnd (to_str H reason) (\<lambda>reason_s.
     bnd (getp data ''missing_inputs'') (\<lambda>mi.
     bnd (if truthy mi
          then bnd (call_join H mi '', '') (\<lambda>names. Inr (lbl_missing @ names))
          else Inr []) (\<lambda>missing.
     Inr (join_with ''\<newline>''
           (filter (\<lambda>s. s \<noteq> [])
              [lbl_status @ lbl_refused, lbl_reason @ reason_s, missing]))))))"

definition render_content_old :: "host \<Rightarrow> js \<Rightarrow> jserr + content" where
  "render_content_old H data =
     bnd (getp data ''status'') (\<lambda>status.
       if status = Str ''success'' then bnd (success_text_old H data) (\<lambda>s. Inr (TextContent s))
       else if status = Str ''refused'' then bnd (refused_text_old H data) (\<lambda>s. Inr (TextContent s))
       else bnd (error_text H data) (\<lambda>s. Inr (TextContent s)))"

definition renderResult_old :: "host \<Rightarrow> js \<Rightarrow> page \<Rightarrow> page \<times> jserr option" where
  "renderResult_old H data p =
     (let p1 = p\<lparr>result_classes := result_classes p - {''hidden''}\<rparr>
      in case render_content_old H data of
           Inl e \<Rightarrow> (p1, Some e)
         | Inr c \<Rightarrow> (p1\<lparr>result_content := c\<rparr>, None))"


subsection \<open>The submit handler\<close>

text \<open>
  The handler is the same in both revisions; it differs only in the \<^verbatim>\<open>renderResult\<close> it
  calls. (\<^verbatim>\<open>event.preventDefault()\<close> touches nothing of the page as modelled.) It
  suspends once, at \<^verbatim>\<open>await fetch(...)\<close> followed by
  \<^verbatim>\<open>await response.json()\<close>. What the network does with the request is the
  environment's choice: the fetch may reject, the body may fail to parse, a value may arrive,
  or the promise may never settle, in which case the handler never resumes.
  A run records the requests sent, the page at the point of suspension, the page when the
  handler has finished (if it does) and the exception that escapes it (if any).
\<close>

record request =
  url :: string
  http_method :: string
  headers :: "(string \<times> string) list"
  body :: "string option"

datatype fetch_outcome = FetchRejects string | JsonRejects string | Parsed js | NeverSettles

record run =
  sent :: "request list"
  at_fetch :: page
  final :: "page option"
  uncaught :: "jserr option"

text \<open>\<^verbatim>\<open>select.value || null\<close>\<close>

definition or_null :: "string \<Rightarrow> js" where
  "or_null s = (if s \<noteq> [] then Str s else Null)"

definition payload :: "page \<Rightarrow> js" where
  "payload p =
     Obj [(''question'', Str (question_value p)),
          (''domain'', or_null (domain_value p)),
          (''topic'', or_null (topic_value p))]"

definition solve_request :: "host \<Rightarrow> page \<Rightarrow> request" where
  "solve_request H p =
     \<lparr>url = ''/api/solve'', http_method = ''POST'',
      headers = [(''Content-Type'', ''application/json'')],
      body = json_stringify H (payload p)\<rparr>"

text \<open>The \<^verbatim>\<open>catch\<close> block followed by the \<^verbatim>\<open>finally\<close> block.\<close>

definition catch_finally ::
  "(host \<Rightarrow> js \<Rightarrow> page \<Rightarrow> page \<times> jserr option) \<Rightarrow> host \<Rightarrow> jserr \<Rightarrow> page \<Rightarrow> page \<times> jserr option"
where
  "catch_finally render H error p =
     (let r = render H (Obj [(''status'', Str ''error''), (''message'', Str (message_of H error))]) p
      in (setLoading False (fst r), snd r))"

definition submit_with ::
  "(host \<Rightarrow> js \<Rightarrow> page \<Rightarrow> page \<times> jserr option) \<Rightarrow> host \<Rightarrow> (request \<Rightarrow> fetch_outcome) \<Rightarrow> page \<Rightarrow> run"
where
  "submit_with render H net p =
     (let p1 = p\<lparr>result_classes := insert ''hidden'' (result_classes p)\<rparr>;
          p2 = p1\<lparr>result_content := TextContent []\<rparr>;
          p3 = setLoading True p2;
          req = solve_request H p3;
          finish = (\<lambda>r. \<lparr>sent = [req], at_fetch = p3, final = Some (fst r), uncaught = snd r\<rparr>)
      in case net req of
           NeverSettles \<Rightarrow> \<lparr>sent = [req], at_fetch = p3, final = None, uncaught = None\<rparr>
         | FetchRejects m \<Rightarrow> finish (catch_finally render H (OtherError m) p3)
         | JsonRejects m \<Rightarrow> finish (catch_finally render H (OtherError m) p3)
         | Parsed data \<Rightarrow>
             (case render H data p3 of
                (p4, None) \<Rightarrow> finish (setLoading False p4, None)
              | (p4, Some e) \<Rightarrow> finish (catch_finally render H e p4)))"

definition submit :: "host \<Rightarrow> (request \<Rightarrow> fetch_outcome) \<Rightarrow> page \<Rightarrow> run" where
  "submit = submit_with renderResult"

definition submit_old :: "host \<Rightarrow> (request \<Rightarrow> fetch_outcome) \<Rightarrow> page \<Rightarrow> run" where
  "submit_old = submit_with renderResult_old"

text \<open>
  The page as the handler leaves it before it suspends: the result hidden and emptied, the
  loading indication on.
\<close>

definition prepare :: "page \<Rightarrow> page" where
  "prepare p =
     setLoading True
       (p\<lparr>result_classes := insert ''hidden'' (result_classes p),
          result_content := TextContent []\<rparr>)"


section \<open>What a rendering shows\<close>

text \<open>
  Both revisions of \<^verbatim>\<open>renderResult\<close> first evaluate the expressions substituted into
  their templates and then lay the resulting texts out, one as markup and one as plain text.
  A \<open>view\<close> is the list of substituted texts: for a success the card, the selection reason,
  the inputs, one line per step, the output variable and the output value; for a refusal the
  reason and, if a line for them is shown, the joined names of the missing inputs; otherwise
  the message.
\<close>

datatype view =
    SuccessView string string string "string list" string string
  | RefusedView string "string option"
  | MessageView string

definition step_line :: "nat \<Rightarrow> string \<Rightarrow> string \<Rightarrow> string \<Rightarrow> string" where
  "step_line i var formula val = dec_str i @ ''. '' @ var @ '' = '' @ formula @ '' = '' @ val"

definition list_item :: "string \<Rightarrow> string" where
  "list_item l = ''<li><code>'' @ l @ ''</code></li>''"

fun layout_new :: "bool \<Rightarrow> view \<Rightarrow> content" where
  "layout_new fb (SuccessView cid reason inputs lines ovar oval) =
     InnerHTML
       (''\<newline>      <div class='' @ dq @ ''meta-row'' @ dq @ ''>''
        @ ''\<newline>        <span>'' @ lbl_status @ ''<strong>'' @ lbl_success @ ''</strong></span>''
        @ ''\<newline>        <span>'' @ lbl_mode @ ''<span class='' @ dq @ ''badge ''
            @ (if fb then ''badge-llm'' else ''badge-sympy'') @ dq
            @ ''>'' @ (if fb then ''LLM fallback'' else ''SymPy'') @ ''</span></span>''
        @ ''\<newline>      </div>''
        @ ''\<newline>      <p>'' @ lbl_card @ ''<code>'' @ cid @ ''</code></p>''
        @ ''\<newline>      <p>'' @ lbl_llm_reason @ reason @ ''</p>''
        @ ''\<newline>      <p>'' @ lbl_inputs @ ''</p>''
        @ ''\<newline>      <pre>'' @ inputs @ ''</pre>''
        @ ''\<newline>      <p>'' @ lbl_steps @ ''</p>''
        @ ''\<newline>      <ol class='' @ dq @ ''steps-list'' @ dq @ ''>''
            @ concat (map list_item lines) @ ''</ol>''
        @ ''\<newline>      <p class='' @ dq @ ''result-output'' @ dq @ ''>'' @ ovar
            @ '' = <strong>'' @ oval @ ''</strong></p>''
        @ ''\<newline>    '')"
| "layout_new fb (RefusedView reason missing) =
     InnerHTML
       (''\<newline>      <p>'' @ lbl_status @ ''<strong>'' @ lbl_refused @ ''</strong></p>''
        @ ''\<newline>      <p>'' @ lbl_reason @ reason @ ''</p>''
        @ ''\<newline>      ''
        @ (case missing of None \<Rightarrow> [] | Some names \<Rightarrow> ''<p>'' @ lbl_missing @ names @ ''</p>'')
        @ ''\<newline>    '')"
| "layout_new fb (MessageView m) = TextContent m"


text \<open>The step line of \<^verbatim>\<open>src/static/app.js\<close>, without the list-item markup.\<close>

definition step_line_new :: "host \<Rightarrow> nat \<Rightarrow> js \<Rightarrow> jserr + string" where
  "step_line_new H idx step =
     bnd (getp step ''variable'') (\<lambda>var. bnd (to_str H var) (\<lambda>var_s.
     bnd (getp step ''formula'') (\<lambda>formula.
     bnd (to_str H (if truthy formula then formula else Str lbl_formula)) (\<lambda>formula_s.
     bnd (getp step ''value'') (\<lambda>val. bnd (to_num H val) (\<lambda>n.
     Inr (step_line (idx + 1) var_s formula_s (toFixed4 H n))))))))"

definition success_view :: "host \<Rightarrow> (nat \<Rightarrow> js \<Rightarrow> jserr + string) \<Rightarrow> js \<Rightarrow> jserr + view" where
  "success_view H line data =
     bnd (getp data ''steps'') (\<lambda>steps. bnd (call_map steps line) (\<lambda>lines.
     bnd (getp data ''card_id'') (\<lambda>card_id. bnd (to_str H card_id) (\<lambda>card_s.
     bnd (getp data ''selection_reason'') (\<lambda>reason. bnd (to_str H reason) (\<lambda>reason_s.
     bnd (getp data ''inputs'') (\<lambda>inputs.
     bnd (getp data ''output_var'') (\<lambda>ovar. bnd (to_str H ovar) (\<lambda>ovar_s.
     bnd (getp data ''output_value'') (\<lambda>oval. bnd (to_str H oval) (\<lambda>oval_s.
     Inr (SuccessView card_s reason_s (or_undefined (json_stringify2 H inputs)) lines
            ovar_s oval_s))))))))))))"

definition refused_view_new :: "host \<Rightarrow> js \<Rightarrow> jserr + view" where
  "refused_view_new H data =
     bnd (getp data ''missing_inputs'') (\<lambda>mi.
     bnd (if length_truthy mi then bnd (call_join H mi '', '') (\<lambda>names. Inr (Some names))
          else Inr None) (\<lambda>missing.
     bnd (getp data ''reason'') (\<lambda>reason. bnd (to_str H reason) (\<lambda>reason_s.
     Inr (RefusedView reason_s missing)))))"


definition view_new :: "host \<Rightarrow> js \<Rightarrow> jserr + view" where
  "view_new H data =
     bnd (getp data ''status'') (\<lambda>status.
       if status = Str ''success'' then success_view H (step_line_new H) data
       else if status = Str ''refused'' then refused_view_new H data
       else bnd (error_text H data) (\<lambda>s. Inr (MessageView s)))"


text \<open>The truth value of \<^verbatim>\<open>data.is_fallback\<close>.\<close>

definition is_fallback :: "js \<Rightarrow> bool" where
  "is_fallback data = (case getp data ''is_fallback'' of Inl e \<Rightarrow> False | Inr v \<Rightarrow> truthy v)"

definition reveal :: "page \<Rightarrow> page" where
  "reveal p = p\<lparr>result_classes := result_classes p - {''hidden''}\<rparr>"

text \<open>What a page shows after a view was laid out on it, or after rendering threw.\<close>

definition shown :: "(view \<Rightarrow> content) \<Rightarrow> jserr + view \<Rightarrow> page \<Rightarrow> page \<times> jserr option" where
  "shown layout r p =
     (case r of
        Inl e \<Rightarrow> (reveal p, Some e)
      | Inr v \<Rightarrow> ((reveal p)\<lparr>result_content := layout v\<rparr>, None))"


text \<open>
  The success markup in three parts: what precedes the mode badge, the badge, and what
  follows it.
\<close>

definition success_head :: string where
  "success_head =
     ''\<newline>      <div class='' @ dq @ ''meta-row'' @ dq @ ''>''
     @ ''\<newline>        <span>'' @ lbl_status @ ''<strong>'' @ lbl_success @ ''</strong></span>''
     @ ''\<newline>        <span>'' @ lbl_mode"

definition mode_badge :: "bool \<Rightarrow> string" where
  "mode_badge fb =
     ''<span class='' @ dq @ ''badge '' @ (if fb then ''badge-llm'' else ''badge-sympy'') @ dq
     @ ''>'' @ (if fb then ''LLM fallback'' else ''SymPy'') @ ''</span>''"

definition success_tail :: "string \<Rightarrow> string \<Rightarrow> string \<Rightarrow> string list \<Rightarrow> string \<Rightarrow> string \<Rightarrow> string" where
  "success_tail cid reason inputs lines ovar oval =
     ''</span>''
     @ ''\<newline>      </div>''
     @ ''\<newline>      <p>'' @ lbl_card @ ''<code>'' @ cid @ ''</code></p>''
     @ ''\<newline>      <p>'' @ lbl_llm_reason @ reason @ ''</p>''
     @ ''\<newline>      <p>'' @ lbl_inputs @ ''</p>''
     @ ''\<newline>      <pre>'' @ inputs @ ''</pre>''
     @ ''\<newline>      <p>'' @ lbl_steps @ ''</p>''
     @ ''\<newline>      <ol class='' @ dq @ ''steps-list'' @ dq @ ''>''
         @ concat (map list_item lines) @ ''</ol>''
     @ ''\<newline>      <p class='' @ dq @ ''result-output'' @ dq @ ''>'' @ ovar
         @ '' = <strong>'' @ oval @ ''</strong></p>''
     @ ''\<newline>    ''"

subsection \<open>Shapes of responses\<close>


text \<open>
  A value converts to a string (and to a number) without an exception exactly when no object
  with an own property \<^verbatim>\<open>toString\<close> is reached through it and the elements of its
  arrays.
\<close>

fun printable :: "js \<Rightarrow> bool"
  and printable_list :: "js list \<Rightarrow> bool"
where
  "printable (Obj kvs) = (''toString'' \<notin> fst ` set kvs)"
| "printable (Arr xs) = printable_list xs"
| "printable Undefined = True"
| "printable Null = True"
| "printable (Bool b) = True"
| "printable (Num n) = True"
| "printable (Str s) = True"
| "printable_list [] = True"
| "printable_list (x # xs) = (printable x \<and> printable_list xs)"

definition printable_step :: "js \<Rightarrow> bool" where
  "printable_step s =
     (printable (prop_of s ''variable'') \<and> printable (prop_of s ''formula'')
      \<and> printable (prop_of s ''value''))"

definition is_object :: "js \<Rightarrow> bool" where
  "is_object v = (case v of Obj kvs \<Rightarrow> True | _ \<Rightarrow> False)"






subsection \<open>Example data\<close>

text \<open>
  A host, a page and responses for the evaluated examples. The numbers the examples print
  are integers, and no example depends on what the host answers.
\<close>

definition example_host :: host where
  "example_host =
     \<lparr>num_to_string = (\<lambda>q. ''?''), str_to_num = (\<lambda>s. NaN),
      type_error_msg = (\<lambda>r. ''TypeError'')\<rparr>"

definition example_page :: page where
  "example_page =
     \<lparr>domain_value = ''portfolio'', topic_value = [], question_value = ''sharpe?'',
      topic_options = [([], lbl_all_topics)], loader_classes = {''hidden''},
      button_disabled = False, result_classes = {''hidden''}, result_content = TextContent []\<rparr>"

definition example_step :: "string \<Rightarrow> js \<Rightarrow> js \<Rightarrow> js" where
  "example_step var formula val =
     Obj [(''variable'', Str var), (''formula'', formula), (''value'', val)]"

definition example_success :: "js list \<Rightarrow> js" where
  "example_success steps =
     Obj [(''status'', Str ''success''), (''card_id'', Str ''sharpe''),
          (''selection_reason'', Str ''rule''), (''inputs'', Obj [(''n'', Num (Fin 3))]),
          (''steps'', Arr steps), (''output_var'', Str ''y''), (''output_value'', Num (Fin 2)),
          (''is_fallback'', Bool False)]"



section \<open>The binding stage of the solve pipeline\<close>

text \<open>
  The server side of the repository (card registry, data resolver, symbolic engine,
  verification, scoring) is not among the sources; only the script that calls
  \<^verbatim>\<open>/api/solve\<close> is. What the specification says about inputs without a binding is
  modelled here from its words.
\<close>

text \<open>
  Modelled from the spec: the \<^verbatim>\<open>FormulaCard\<close> (id, domain, topic and the ordered list of
  the names of its required inputs; the expression graph plays no part before evaluation) and
  the \<^verbatim>\<open>VariableBinding\<close> set (variable name to numeric value and provenance reference),
  neither of which is declared in the sources.
\<close>

record formula_card =
  card_id :: string
  card_domain :: string
  card_topic :: string
  required_inputs :: "string list"

type_synonym variable_binding = "rat \<times> string"

type_synonym bindings = "string \<rightharpoonup> variable_binding"

text \<open>
  Modelled from the spec: the \<^verbatim>\<open>SolveResult\<close> variant
  \<^verbatim>\<open>Success{card_id, selection_reason, inputs, steps, output_var, output_value, is_fallback}\<close>,
  \<^verbatim>\<open>Refused{reason, missing_inputs?}\<close>, \<^verbatim>\<open>Errored{message}\<close>, with a step being
  its index, variable, formula text and value. The pipeline that produces it is not in the
  sources.
\<close>

type_synonym computation_step = "nat \<times> string \<times> string \<times> rat"

datatype solve_result =
    Success string string "(string \<times> variable_binding) list" "computation_step list" string rat bool
  | Refused string "string list option"
  | Errored string

text \<open>
  Modelled from the spec: the names the resolver reports as missing, which the pipeline's
  binding stage (absent from the sources) computes: the required inputs of the card that have
  no binding.
\<close>

definition missing_inputs :: "formula_card \<Rightarrow> bindings \<Rightarrow> string list" where
  "missing_inputs c b = filter (\<lambda>name. b name = None) (required_inputs c)"

text \<open>
  Modelled from the spec: the transition out of the state \<^verbatim>\<open>Bound\<close> of the request state
  machine, whose code is absent from the sources. A required input with no binding is a
  \<^verbatim>\<open>MissingInputError\<close>, which surfaces as \<^verbatim>\<open>Refused\<close> with the reason
  \<^verbatim>\<open>missing required input\<close> and the list of the missing names; the later stages
  (evaluation, verification, scoring, assembly), here \<open>later\<close>, run on complete bindings
  only.
\<close>

definition solve_bound ::
  "(formula_card \<Rightarrow> bindings \<Rightarrow> solve_result) \<Rightarrow> formula_card \<Rightarrow> bindings \<Rightarrow> solve_result"
where
  "solve_bound later c b =
     (let missing = missing_inputs c b
      in if missing \<noteq> [] then Refused ''missing required input'' (Some missing)
         else later c b)"

definition sharpe_card :: formula_card where
  "sharpe_card =
     \<lparr>card_id = ''sharpe'', card_domain = ''portfolio'', card_topic = ''risk'',
      required_inputs = [''mean'', ''std'', ''rf'']\<rparr>"

section \<open>Properties of the script\<close>

subsection \<open>Sequencing\<close>

lemma bnd_Inl [simp]: "bnd (Inl e) f = Inl e"
  by (simp add: bnd_def)

lemma bnd_Inr [simp]: "bnd (Inr v) f = f v"
  by (simp add: bnd_def)

lemma bnd_assoc: "bnd (bnd m f) g = bnd m (\<lambda>x. bnd (f x) g)"
  by (cases m) simp_all

subsection \<open>The topic select\<close>

text \<open>
  C7. Whatever the domain select holds, \<^verbatim>\<open>updateTopicOptions\<close> leaves the topic select
  with the option of empty value and text \<open>lbl_all_topics\<close> first, followed by one option per
  entry of \<^verbatim>\<open>window.TOPIC_OPTIONS[domain]\<close>, in order, with the entry as value and as
  text; if the domain is empty, or the mapping is absent or has no entry for the domain, that
  first option is the only one. (When the domain names a member of \<^verbatim>\<open>Object.prototype\<close>
  the call throws, after the options were reset to the first one.)
\<close>

theorem updateTopicOptions_options:
  "topic_options (fst (updateTopicOptions tbl p)) =
     ([], lbl_all_topics) #
     (case tbl of
        None \<Rightarrow> []
      | Some t \<Rightarrow>
          if domain_value p = [] then []
          else (case map_of t (domain_value p) of
                  None \<Rightarrow> []
                | Some ts \<Rightarrow> map (\<lambda>topic. (topic, topic)) ts))"
  by (simp add: updateTopicOptions_def table_get_def Let_def split: option.splits)

theorem updateTopicOptions_options_witness:
  "topic_options (fst (updateTopicOptions
       (Some [(''portfolio'', [''sharpe'', ''sortino'']), (''bonds'', [])]) example_page)) =
     [([], lbl_all_topics), (''sharpe'', ''sharpe''), (''sortino'', ''sortino'')]"
  using updateTopicOptions_options
          [of "Some [(''portfolio'', [''sharpe'', ''sortino'']), (''bonds'', [])]" example_page]
  by (simp add: example_page_def)

subsection \<open>The request\<close>

lemma submit_with_prepare:
  "submit_with render H net p =
     (let p3 = prepare p; req = solve_request H p;
          finish = (\<lambda>r. \<lparr>sent = [req], at_fetch = p3, final = Some (fst r), uncaught = snd r\<rparr>)
      in case net req of
           NeverSettles \<Rightarrow> \<lparr>sent = [req], at_fetch = p3, final = None, uncaught = None\<rparr>
         | FetchRejects m \<Rightarrow> finish (catch_finally render H (OtherError m) p3)
         | JsonRejects m \<Rightarrow> finish (catch_finally render H (OtherError m) p3)
         | Parsed data \<Rightarrow>
             (case snd (render H data p3) of
                None \<Rightarrow> finish (setLoading False (fst (render H data p3)), None)
              | Some e \<Rightarrow> finish (catch_finally render H e (fst (render H data p3)))))"
proof -
  have req: "solve_request H (setLoading True
      (p\<lparr>result_classes := insert ''hidden'' (result_classes p),
         result_content := TextContent []\<rparr>)) = solve_request H p"
    by (simp add: solve_request_def payload_def setLoading_def)
  show ?thesis
    unfolding submit_with_def prepare_def Let_def
    by (simp add: req split: fetch_outcome.split prod.split option.split)
qed

lemma sent_submit_with: "sent (submit_with render H net p) = [solve_request H p]"
  by (simp add: submit_with_prepare Let_def split: fetch_outcome.split option.split)

lemma quote_json_keys:
  "quote_json ''question'' = dq @ ''question'' @ dq"
  "quote_json ''domain'' = dq @ ''domain'' @ dq"
  "quote_json ''topic'' = dq @ ''topic'' @ dq"
  by (simp_all add: quote_json_def quote_char_def)

lemma json_stringify_payload:
  "json_stringify H (payload p) =
     Some (''{'' @ dq @ ''question'' @ dq @ '':'' @ quote_json (question_value p)
           @ '','' @ dq @ ''domain'' @ dq @ '':''
           @ (if domain_value p = [] then ''null'' else quote_json (domain_value p))
           @ '','' @ dq @ ''topic'' @ dq @ '':''
           @ (if topic_value p = [] then ''null'' else quote_json (topic_value p))
           @ ''}'')"
  by (simp add: json_stringify_def payload_def or_null_def quote_json_keys)

text \<open>
  C6. A submission sends exactly one request, in either revision: a \<^verbatim>\<open>POST\<close> to
  \<^verbatim>\<open>/api/solve\<close> whose body is the JSON text of the object with the three keys
  \<^verbatim>\<open>question\<close>, \<^verbatim>\<open>domain\<close> and \<^verbatim>\<open>topic\<close>, in this order, where the question is
  the value of the question field and the domain and the topic are the values of the selects,
  or \<^verbatim>\<open>null\<close> for a select whose value is the empty string.
\<close>

theorem submit_sends_one_post:
  "sent (submit H net p) = [solve_request H p]
   \<and> sent (submit_old H net p) = [solve_request H p]
   \<and> url (solve_request H p) = ''/api/solve''
   \<and> http_method (solve_request H p) = ''POST''
   \<and> body (solve_request H p) =
       json_stringify H
         (Obj [(''question'', Str (question_value p)),
               (''domain'', if domain_value p = [] then Null else Str (domain_value p)),
               (''topic'', if topic_value p = [] then Null else Str (topic_value p))])
   \<and> body (solve_request H p) =
       Some (''{'' @ dq @ ''question'' @ dq @ '':'' @ quote_json (question_value p)
             @ '','' @ dq @ ''domain'' @ dq @ '':''
             @ (if domain_value p = [] then ''null'' else quote_json (domain_value p))
             @ '','' @ dq @ ''topic'' @ dq @ '':''
             @ (if topic_value p = [] then ''null'' else quote_json (topic_value p))
             @ ''}'')"
proof -
  have "body (solve_request H p) = json_stringify H (payload p)"
    by (simp add: solve_request_def)
  moreover have "payload p =
      Obj [(''question'', Str (question_value p)),
           (''domain'', if domain_value p = [] then Null else Str (domain_value p)),
           (''topic'', if topic_value p = [] then Null else Str (topic_value p))]"
    by (simp add: payload_def or_null_def)
  ultimately show ?thesis
    using json_stringify_payload [of H p]
    by (simp add: submit_def submit_old_def sent_submit_with solve_request_def)
qed

theorem submit_sends_one_post_witness:
  "map body (sent (submit example_host (\<lambda>q. NeverSettles) example_page)) =
     [Some (''{'' @ dq @ ''question'' @ dq @ '':'' @ dq @ ''sharpe?'' @ dq
            @ '','' @ dq @ ''domain'' @ dq @ '':'' @ dq @ ''portfolio'' @ dq
            @ '','' @ dq @ ''topic'' @ dq @ '':null}'')]"
proof -
  note post = submit_sends_one_post [of example_host "\<lambda>q. NeverSettles" example_page]
  from post have one: "sent (submit example_host (\<lambda>q. NeverSettles) example_page) =
      [solve_request example_host example_page]"
    by blast
  from post have body_text: "body (solve_request example_host example_page) =
      Some (''{'' @ dq @ ''question'' @ dq @ '':'' @ quote_json (question_value example_page)
            @ '','' @ dq @ ''domain'' @ dq @ '':''
            @ (if domain_value example_page = [] then ''null''
               else quote_json (domain_value example_page))
            @ '','' @ dq @ ''topic'' @ dq @ '':''
            @ (if topic_value example_page = [] then ''null''
               else quote_json (topic_value example_page))
            @ ''}'')"
    by blast
  show ?thesis
    unfolding one list.map body_text
    by (simp add: example_page_def quote_json_def quote_char_def)
qed

subsection \<open>The loading indication\<close>

lemma error_object_rendered:
  "renderResult H (Obj [(''status'', Str ''error''), (''message'', Str m)]) p =
     ((reveal p)\<lparr>result_content := TextContent (if m = [] then lbl_unknown else m)\<rparr>, None)"
  by (simp add: renderResult_def render_content_def error_text_def reveal_def)

lemma error_object_rendered_old:
  "renderResult_old H (Obj [(''status'', Str ''error''), (''message'', Str m)]) p =
     ((reveal p)\<lparr>result_content := TextContent (if m = [] then lbl_unknown else m)\<rparr>, None)"
  by (simp add: renderResult_old_def render_content_old_def error_text_def reveal_def)

lemma prepare_loading:
  "''hidden'' \<notin> loader_classes (prepare p)" "button_disabled (prepare p)"
  by (simp_all add: prepare_def setLoading_def)

lemma setLoading_False:
  "''hidden'' \<in> loader_classes (setLoading False p)" "\<not> button_disabled (setLoading False p)"
  by (simp_all add: setLoading_def)

lemma catch_finally_new:
  "catch_finally renderResult H e p =
     (setLoading False ((reveal p)\<lparr>result_content :=
         TextContent (if message_of H e = [] then lbl_unknown else message_of H e)\<rparr>), None)"
  by (simp add: catch_finally_def error_object_rendered)

lemma catch_finally_old:
  "catch_finally renderResult_old H e p =
     (setLoading False ((reveal p)\<lparr>result_content :=
         TextContent (if message_of H e = [] then lbl_unknown else message_of H e)\<rparr>), None)"
  by (simp add: catch_finally_def error_object_rendered_old)

lemma submit_with_cycle:
  assumes cf: "\<And>e q. catch_finally render H e q =
     (setLoading False ((reveal q)\<lparr>result_content :=
         TextContent (if message_of H e = [] then lbl_unknown else message_of H e)\<rparr>), None)"
    and r: "r = submit_with render H net p"
  shows "''hidden'' \<notin> loader_classes (at_fetch r) \<and> button_disabled (at_fetch r)
    \<and> (final r = None \<longleftrightarrow> net (solve_request H p) = NeverSettles)
    \<and> (\<forall>q. final r = Some q \<longrightarrow> ''hidden'' \<in> loader_classes q \<and> \<not> button_disabled q)
    \<and> uncaught r = None"
  unfolding r submit_with_prepare Let_def
  by (cases "net (solve_request H p)")
     (auto simp: prepare_loading setLoading_False cf split: option.splits)

text \<open>
  C10. In a run of the submit handler of either revision, the page at the point where the
  handler suspends has the loader without the class \<^verbatim>\<open>hidden\<close> and the button disabled.
  The handler finishes unless the request never settles, and whenever it finishes (the fetch
  rejected, the body did not parse, rendering threw, or all succeeded) the loader has the
  class \<^verbatim>\<open>hidden\<close> and the button is enabled; no exception escapes the handler.
\<close>

theorem submit_loading_cycle:
  assumes "r = submit H net p \<or> r = submit_old H net p"
  shows "''hidden'' \<notin> loader_classes (at_fetch r) \<and> button_disabled (at_fetch r)
    \<and> (final r = None \<longleftrightarrow> net (solve_request H p) = NeverSettles)
    \<and> (\<forall>q. final r = Some q \<longrightarrow> ''hidden'' \<in> loader_classes q \<and> \<not> button_disabled q)
    \<and> uncaught r = None"
  using assms
proof
  assume "r = submit H net p"
  then show ?thesis
    unfolding submit_def by (rule submit_with_cycle [OF catch_finally_new])
next
  assume "r = submit_old H net p"
  then show ?thesis
    unfolding submit_old_def by (rule submit_with_cycle [OF catch_finally_old])
qed

theorem submit_loading_cycle_witness:
  "''hidden'' \<notin> loader_classes (at_fetch (submit example_host (\<lambda>q. FetchRejects ''offline'') example_page))
   \<and> button_disabled (at_fetch (submit example_host (\<lambda>q. FetchRejects ''offline'') example_page))
   \<and> (\<exists>q. final (submit example_host (\<lambda>q. FetchRejects ''offline'') example_page) = Some q
          \<and> ''hidden'' \<in> loader_classes q \<and> \<not> button_disabled q)"
  using submit_loading_cycle [of "submit example_host (\<lambda>q. FetchRejects ''offline'') example_page"
          example_host "\<lambda>q. FetchRejects ''offline''" example_page]
  by (cases "final (submit example_host (\<lambda>q. FetchRejects ''offline'') example_page)") simp_all


subsection \<open>A rendering is a view laid out\<close>

lemma getp_prop_of:
  "getp d k = (if d = Undefined \<or> d = Null then Inl (TypeError (NullishRead k)) else Inr (prop_of d k))"
  by (cases d) simp_all

lemma getp_Inr_iff: "getp d k = Inr v \<longleftrightarrow> d \<noteq> Undefined \<and> d \<noteq> Null \<and> prop_of d k = v"
  by (cases d) auto

lemma step_item_factor: "step_item H i s = bnd (step_line_new H i s) (\<lambda>l. Inr (list_item l))"
  by (simp add: step_item_def step_line_new_def bnd_assoc step_line_def list_item_def)

lemma map_from_wrap:
  assumes "\<And>i x. f i x = bnd (g i x) (\<lambda>l. Inr (w l))"
  shows "map_from f i xs = bnd (map_from g i xs) (\<lambda>ls. Inr (map w ls))"
proof (induction xs arbitrary: i)
  case Nil
  show ?case by simp
next
  case (Cons x xs)
  have head: "f i x = bnd (g i x) (\<lambda>l. Inr (w l))"
    by (rule assms)
  show ?case
    by (cases "g i x"; cases "map_from g (Suc i) xs") (simp_all add: head Cons.IH)
qed

lemma call_map_factor:
  "call_map v (step_item H) = bnd (call_map v (step_line_new H)) (\<lambda>ls. Inr (map list_item ls))"
  by (cases v) (simp_all add: map_from_wrap [OF step_item_factor])

lemma success_factor:
  "bnd (success_html H d) (\<lambda>s. Inr (InnerHTML s))
   = bnd (success_view H (step_line_new H) d) (\<lambda>v. Inr (layout_new (is_fallback d) v))"
proof (cases "d = Undefined \<or> d = Null")
  case True
  then show ?thesis by (auto simp: success_html_def success_view_def)
next
  case False
  then show ?thesis
    by (simp add: success_html_def success_view_def is_fallback_def getp_prop_of
          call_map_factor bnd_assoc Let_def)
qed

lemma refused_factor:
  "bnd (refused_html H d) (\<lambda>s. Inr (InnerHTML s))
   = bnd (refused_view_new H d) (\<lambda>v. Inr (layout_new fb v))"
proof (cases "d = Undefined \<or> d = Null")
  case True
  then show ?thesis by (auto simp: refused_html_def refused_view_new_def)
next
  case False
  then show ?thesis
    by (simp add: refused_html_def refused_view_new_def getp_prop_of bnd_assoc)
qed

lemma render_content_view:
  "render_content H d = bnd (view_new H d) (\<lambda>v. Inr (layout_new (is_fallback d) v))"
  by (cases "getp d ''status''")
     (simp_all add: render_content_def view_new_def success_factor refused_factor bnd_assoc)

lemma renderResult_shown:
  "renderResult H d p = shown (layout_new (is_fallback d)) (view_new H d) p"
  by (cases "view_new H d")
     (simp_all add: renderResult_def render_content_view shown_def reveal_def)






subsection \<open>Refusals\<close>








subsection \<open>Four decimals\<close>









subsection \<open>Successes\<close>








lemma example_success_fields:
  "getp (example_success steps) ''status'' = Inr (Str ''success'')"
  "getp (example_success steps) ''steps'' = Inr (Arr steps)"
  "getp (example_success steps) ''card_id'' = Inr (Str ''sharpe'')"
  "getp (example_success steps) ''selection_reason'' = Inr (Str ''rule'')"
  "getp (example_success steps) ''inputs'' = Inr (Obj [(''n'', Num (Fin 3))])"
  "getp (example_success steps) ''output_var'' = Inr (Str ''y'')"
  "getp (example_success steps) ''output_value'' = Inr (Num (Fin 2))"
  "getp (example_success steps) ''is_fallback'' = Inr (Bool False)"
  by (simp_all add: example_success_def)






subsection \<open>The calculation mode\<close>

lemma view_new_agree:
  assumes "\<forall>k. k \<noteq> ''is_fallback'' \<longrightarrow> getp d' k = getp d k"
  shows "view_new H d' = view_new H d"
proof -
  have keys: "getp d' ''status'' = getp d ''status''" "getp d' ''steps'' = getp d ''steps''"
    "getp d' ''card_id'' = getp d ''card_id''"
    "getp d' ''selection_reason'' = getp d ''selection_reason''"
    "getp d' ''inputs'' = getp d ''inputs''" "getp d' ''output_var'' = getp d ''output_var''"
    "getp d' ''output_value'' = getp d ''output_value''"
    "getp d' ''missing_inputs'' = getp d ''missing_inputs''"
    "getp d' ''reason'' = getp d ''reason''" "getp d' ''message'' = getp d ''message''"
    using assms by simp_all
  have parts: "success_view H (step_line_new H) d' = success_view H (step_line_new H) d"
    "refused_view_new H d' = refused_view_new H d" "error_text H d' = error_text H d"
    by (simp_all add: success_view_def refused_view_new_def error_text_def keys)
  show ?thesis
    unfolding view_new_def keys parts by (rule refl)
qed

lemma success_view_is_success:
  assumes "success_view H g d = Inr v"
  shows "\<exists>cid why inputs ls ovar oval. v = SuccessView cid why inputs ls ovar oval"
  using assms by (auto simp: success_view_def bnd_def split: sum.splits)

lemma layout_new_success:
  "layout_new fb (SuccessView cid why inputs ls ovar oval) =
     InnerHTML (success_head @ mode_badge fb @ success_tail cid why inputs ls ovar oval)"
  by (simp add: success_head_def mode_badge_def success_tail_def)

text \<open>
  C5. Take a response whose \<^verbatim>\<open>status\<close> is \<^verbatim>\<open>success\<close> and any response that agrees
  with it on every property other than \<^verbatim>\<open>is_fallback\<close> (the response itself, for one).
  \<^verbatim>\<open>renderResult\<close> of \<^verbatim>\<open>src/static/app.js\<close> renders the second as a fixed head, the
  mode badge, and a tail made of the card, selection reason, inputs, step lines and output of
  the first: the badge reads \<^verbatim>\<open>LLM fallback\<close> (class \<^verbatim>\<open>badge-llm\<close>) if
  \<^verbatim>\<open>is_fallback\<close> is truthy and \<^verbatim>\<open>SymPy\<close> (class \<^verbatim>\<open>badge-sympy\<close>) otherwise, and
  nothing else depends on \<^verbatim>\<open>is_fallback\<close>. If rendering the first throws, rendering the
  second throws the same exception.
\<close>

theorem mode_label:
  assumes "getp d ''status'' = Inr (Str ''success'')"
    and "\<forall>k. k \<noteq> ''is_fallback'' \<longrightarrow> getp d' k = getp d k"
    and "getp d' ''is_fallback'' = Inr fb"
  shows
    "case view_new H d of
       Inl e \<Rightarrow> renderResult H d' p = (p\<lparr>result_classes := result_classes p - {''hidden''}\<rparr>, Some e)
     | Inr v \<Rightarrow>
         (\<exists>cid why inputs ls ovar oval.
            v = SuccessView cid why inputs ls ovar oval
            \<and> renderResult H d' p =
                (p\<lparr>result_classes := result_classes p - {''hidden''},
                   result_content := InnerHTML
                     (success_head
                      @ ''<span class='' @ dq @ ''badge ''
                      @ (if truthy fb then ''badge-llm'' else ''badge-sympy'') @ dq @ ''>''
                      @ (if truthy fb then ''LLM fallback'' else ''SymPy'') @ ''</span>''
                      @ success_tail cid why inputs ls ovar oval)\<rparr>, None))"
proof (cases "view_new H d")
  case (Inl e)
  then show ?thesis
    by (simp add: renderResult_shown view_new_agree [OF assms(2)] shown_def reveal_def)
next
  case (Inr v)
  then have "success_view H (step_line_new H) d = Inr v"
    using assms(1) by (simp add: view_new_def)
  then obtain cid why inputs ls ovar oval where v: "v = SuccessView cid why inputs ls ovar oval"
    using success_view_is_success by blast
  have fb: "is_fallback d' = truthy fb"
    using assms(3) by (simp add: is_fallback_def)
  have "renderResult H d' p =
      (p\<lparr>result_classes := result_classes p - {''hidden''},
         result_content := InnerHTML
           (success_head @ mode_badge (truthy fb) @ success_tail cid why inputs ls ovar oval)\<rparr>, None)"
    unfolding renderResult_shown view_new_agree [OF assms(2)] Inr v fb
    by (simp only: shown_def reveal_def layout_new_success sum.case)
  then show ?thesis
    using Inr v by (simp add: mode_badge_def)
qed

theorem mode_label_witness:
  "\<exists>cid why inputs ls ovar oval.
     renderResult example_host
       (Obj [(''is_fallback'', Num (Fin 1)), (''status'', Str ''success''),
             (''steps'', Arr []), (''output_value'', Num (Fin 2))]) example_page =
       (example_page\<lparr>result_classes := result_classes example_page - {''hidden''},
          result_content := InnerHTML
            (success_head
             @ ''<span class='' @ dq @ ''badge badge-llm'' @ dq @ ''>LLM fallback</span>''
             @ success_tail cid why inputs ls ovar oval)\<rparr>, None)"
proof -
  have status: "getp (Obj [(''status'', Str ''success''), (''steps'', Arr []),
      (''output_value'', Num (Fin 2))]) ''status'' = Inr (Str ''success'')"
    by simp
  have agree: "\<forall>k. k \<noteq> ''is_fallback'' \<longrightarrow>
      getp (Obj [(''is_fallback'', Num (Fin 1)), (''status'', Str ''success''),
                 (''steps'', Arr []), (''output_value'', Num (Fin 2))]) k
      = getp (Obj [(''status'', Str ''success''), (''steps'', Arr []),
                   (''output_value'', Num (Fin 2))]) k"
    by simp
  have fb: "getp (Obj [(''is_fallback'', Num (Fin 1)), (''status'', Str ''success''),
      (''steps'', Arr []), (''output_value'', Num (Fin 2))]) ''is_fallback'' = Inr (Num (Fin 1))"
    by simp
  have view: "\<exists>v. view_new example_host (Obj [(''status'', Str ''success''), (''steps'', Arr []),
      (''output_value'', Num (Fin 2))]) = Inr v"
    by (simp add: view_new_def success_view_def del: num_str.simps)
  then obtain v where v: "view_new example_host (Obj [(''status'', Str ''success''),
      (''steps'', Arr []), (''output_value'', Num (Fin 2))]) = Inr v"
    by blast
  from mode_label [OF status agree fb, of example_host example_page]
  obtain cid why inputs ls ovar oval where
    "renderResult example_host
       (Obj [(''is_fallback'', Num (Fin 1)), (''status'', Str ''success''),
             (''steps'', Arr []), (''output_value'', Num (Fin 2))]) example_page =
       (example_page\<lparr>result_classes := result_classes example_page - {''hidden''},
          result_content := InnerHTML
            (success_head
             @ ''<span class='' @ dq @ ''badge ''
             @ (if truthy (Num (Fin 1)) then ''badge-llm'' else ''badge-sympy'') @ dq @ ''>''
             @ (if truthy (Num (Fin 1)) then ''LLM fallback'' else ''SymPy'') @ ''</span>''
             @ success_tail cid why inputs ls ovar oval)\<rparr>, None)"
    unfolding v by auto
  then show ?thesis
    by (intro exI [where x = cid] exI [where x = why] exI [where x = inputs]
          exI [where x = ls] exI [where x = ovar] exI [where x = oval]) simp
qed

subsection \<open>Exceptions while rendering\<close>

lemma to_str_printable:
  "(printable v \<longrightarrow> (\<exists>s. to_str H v = Inr s))
   \<and> (\<not> printable v \<longrightarrow> to_str H v = Inl (TypeError NotPrimitive))"
  "(printable_list xs \<longrightarrow> (\<exists>s. join_str H sep xs = Inr s))
   \<and> (\<not> printable_list xs \<longrightarrow> join_str H sep xs = Inl (TypeError NotPrimitive))"
  "(printable v \<longrightarrow> (\<exists>s. elem_str H v = Inr s))
   \<and> (\<not> printable v \<longrightarrow> elem_str H v = Inl (TypeError NotPrimitive))"
proof (induction H v and H sep xs and H v rule: to_str_join_str_elem_str.induct)
  case (10 H sep x y ys)
  then show ?case
    by (cases "elem_str H x"; cases "join_str H sep (y # ys)") auto
qed simp_all

lemma to_str_ok: "printable v \<Longrightarrow> \<exists>s. to_str H v = Inr s"
  using to_str_printable(1) by blast

lemma to_str_fails: "\<not> printable v \<Longrightarrow> to_str H v = Inl (TypeError NotPrimitive)"
  using to_str_printable(1) by blast



lemma to_str_Inr_iff: "(\<exists>s. to_str H v = Inr s) \<longleftrightarrow> printable v"
  using to_str_ok to_str_fails by (metis Inl_Inr_False)

lemma to_num_Inr_iff: "(\<exists>n. to_num H v = Inr n) \<longleftrightarrow> printable v"
proof (cases v)
  case (Arr xs)
  then show ?thesis
    using to_str_ok [of v H] to_str_fails [of v H] by (cases "printable v") auto
next
  case (Obj kvs)
  then show ?thesis
    using to_str_ok [of v H] to_str_fails [of v H] by (cases "printable v") auto
qed simp_all

lemma to_num_fails: "\<not> printable v \<Longrightarrow> to_num H v = Inl (TypeError NotPrimitive)"
  using to_str_fails [of v H] by (cases v) simp_all

lemma truthy_or_printable:
  "printable (if truthy f then f else Str lbl_formula) \<longleftrightarrow> printable f"
  by (cases f) auto

lemma getp_object: "is_object s \<Longrightarrow> getp s k = Inr (prop_of s k)"
  by (cases s) (simp_all add: is_object_def)

lemma step_item_Inr_iff:
  assumes "is_object s"
  shows "(\<exists>l. step_item H i s = Inr l) \<longleftrightarrow> printable_step s"
proof (cases "printable_step s")
  case True
  then obtain a b c where "to_str H (prop_of s ''variable'') = Inr a"
    "to_str H (if truthy (prop_of s ''formula'') then prop_of s ''formula'' else Str lbl_formula) = Inr b"
    "to_num H (prop_of s ''value'') = Inr c"
    using to_str_Inr_iff to_num_Inr_iff truthy_or_printable unfolding printable_step_def by metis
  then show ?thesis
    using True by (simp add: step_item_def getp_object [OF assms])
next
  case False
  then consider "\<not> printable (prop_of s ''variable'')"
    | "\<not> printable (if truthy (prop_of s ''formula'') then prop_of s ''formula'' else Str lbl_formula)"
    | "\<not> printable (prop_of s ''value'')"
    unfolding printable_step_def truthy_or_printable by blast
  then have "\<exists>e. step_item H i s = Inl e"
  proof cases
    case 1
    then show ?thesis
      by (simp add: step_item_def getp_object [OF assms] to_str_fails)
  next
    case 2
    then show ?thesis
      by (cases "to_str H (prop_of s ''variable'')")
         (simp_all add: step_item_def getp_object [OF assms] to_str_fails)
  next
    case 3
    then show ?thesis
      by (cases "to_str H (prop_of s ''variable'')";
          cases "to_str H (if truthy (prop_of s ''formula'')
                           then prop_of s ''formula'' else Str lbl_formula)")
         (simp_all add: step_item_def getp_object [OF assms] to_num_fails)
  qed
  then show ?thesis
    using False by auto
qed

lemma map_from_Inr_iff:
  assumes "list_all is_object ss"
  shows "(\<exists>ls. map_from (step_item H) i ss = Inr ls) \<longleftrightarrow> list_all printable_step ss"
  using assms
proof (induction ss arbitrary: i)
  case Nil
  show ?case by simp
next
  case (Cons s ss)
  then have head: "(\<exists>l. step_item H i s = Inr l) \<longleftrightarrow> printable_step s"
    and tail: "(\<exists>ls. map_from (step_item H) (Suc i) ss = Inr ls) \<longleftrightarrow> list_all printable_step ss"
    using step_item_Inr_iff by simp_all
  show ?case
    using head tail
    by (cases "step_item H i s"; cases "map_from (step_item H) (Suc i) ss") auto
qed


lemma getp_nonnull: "getp d k = Inr v \<Longrightarrow> getp d k' = Inr (prop_of d k')"
  by (cases d) simp_all

lemma success_html_Inr_iff:
  assumes "getp d ''steps'' = Inr (Arr ss)" and "list_all is_object ss"
  shows "(\<exists>s. success_html H d = Inr s) \<longleftrightarrow>
     (list_all printable_step ss \<and> printable (prop_of d ''card_id'')
      \<and> printable (prop_of d ''selection_reason'') \<and> printable (prop_of d ''output_var'')
      \<and> printable (prop_of d ''output_value''))"
proof -
  note key = getp_nonnull [OF assms(1)]
  have arr: "prop_of d ''steps'' = Arr ss"
    using assms(1) key [of "''steps''"] by simp
  have steps: "(\<exists>ls. map_from (step_item H) 0 ss = Inr ls) \<longleftrightarrow> list_all printable_step ss"
    by (rule map_from_Inr_iff [OF assms(2)])
  show ?thesis
    unfolding steps [symmetric] to_str_Inr_iff [of H, symmetric]
    by (cases "map_from (step_item H) 0 ss"; cases "to_str H (prop_of d ''card_id'')";
        cases "to_str H (prop_of d ''selection_reason'')";
        cases "to_str H (prop_of d ''output_var'')";
        cases "to_str H (prop_of d ''output_value'')")
       (simp_all add: success_html_def key arr Let_def)
qed

text \<open>
  C9, as the code has it. For a response whose \<^verbatim>\<open>status\<close> is \<^verbatim>\<open>success\<close> and whose
  \<^verbatim>\<open>steps\<close> is an array of objects, \<^verbatim>\<open>renderResult\<close> of \<^verbatim>\<open>src/static/app.js\<close>
  completes without an exception exactly when every text it prints can be converted: the
  variable, formula and value of each step and the card, selection reason, output variable
  and output value contain no object with an own property \<^verbatim>\<open>toString\<close>. A value that is
  absent, \<^verbatim>\<open>null\<close>, a boolean, a number or a string always converts.
\<close>

theorem render_completes:
  assumes "getp d ''status'' = Inr (Str ''success'')"
    and "getp d ''steps'' = Inr (Arr ss)" and "list_all is_object ss"
  shows "snd (renderResult H d p) = None \<longleftrightarrow>
     (list_all printable_step ss \<and> printable (prop_of d ''card_id'')
      \<and> printable (prop_of d ''selection_reason'') \<and> printable (prop_of d ''output_var'')
      \<and> printable (prop_of d ''output_value''))"
proof -
  have "snd (renderResult H d p) = None \<longleftrightarrow> (\<exists>s. success_html H d = Inr s)"
    using assms(1)
    by (cases "success_html H d") (simp_all add: renderResult_def render_content_def Let_def)
  then show ?thesis
    using success_html_Inr_iff [OF assms(2,3)] by simp
qed

theorem render_completes_witness:
  "snd (renderResult example_host
     (example_success [example_step ''x'' (Str ''a / b'') (Str ''0.5''),
                       example_step ''y'' Null (Arr [Bool True])]) example_page) = None"
proof -
  have steps: "list_all is_object [example_step ''x'' (Str ''a / b'') (Str ''0.5''),
      example_step ''y'' Null (Arr [Bool True])]"
    by (simp add: is_object_def example_step_def)
  show ?thesis
    using render_completes [OF example_success_fields(1,2) steps, of example_host example_page]
    by (simp add: printable_step_def example_step_def example_success_def)
qed

text \<open>
  For a value of any runtime type the property fails: on a step whose value is an object
  with an own property \<^verbatim>\<open>toString\<close>, \<^verbatim>\<open>Number\<close> throws a \<^verbatim>\<open>TypeError\<close>.
\<close>

theorem render_completes_counterexample:
  "snd (renderResult example_host
     (example_success [example_step ''x'' (Str ''a / b'') (Obj [(''toString'', Null)])])
     example_page) = Some (TypeError NotPrimitive)"
  by (simp add: renderResult_def render_content_def success_html_def step_item_def
        example_success_def example_step_def)

subsection \<open>The two revisions compared\<close>















section \<open>Properties of the binding stage\<close>

text \<open>
  C2. If at least one required input of the card has no binding, the result of the binding
  stage is \<^verbatim>\<open>Refused\<close> with a list of missing inputs whose elements are exactly the
  required inputs without a binding; the later stages are not run, so no value is computed
  from a default put in place of a missing input.
\<close>

theorem missing_input_refused:
  assumes "\<exists>name \<in> set (required_inputs c). b name = None"
  shows "\<exists>names.
      solve_bound later c b = Refused ''missing required input'' (Some names)
      \<and> set names = {name \<in> set (required_inputs c). b name = None}
      \<and> (\<forall>later'. solve_bound later' c b = solve_bound later c b)"
proof -
  from assms obtain name where "name \<in> set (required_inputs c)" and "b name = None"
    by blast
  then have "name \<in> set (missing_inputs c b)"
    by (simp add: missing_inputs_def)
  then have "missing_inputs c b \<noteq> []"
    by auto
  then have "solve_bound later c b = Refused ''missing required input'' (Some (missing_inputs c b))"
    and "\<forall>later'. solve_bound later' c b = solve_bound later c b"
    by (simp_all add: solve_bound_def)
  moreover have "set (missing_inputs c b) = {name \<in> set (required_inputs c). b name = None}"
    by (auto simp: missing_inputs_def)
  ultimately show ?thesis
    by blast
qed

theorem missing_input_refused_witness:
  "solve_bound (\<lambda>c b. Errored ''not reached'') sharpe_card
     [''mean'' \<mapsto> (8 / 100, ''user-supplied''), ''rf'' \<mapsto> (2 / 100, ''user-supplied'')]
   = Refused ''missing required input'' (Some [''std''])"
proof -
  have unbound: "\<exists>name \<in> set (required_inputs sharpe_card).
      [''mean'' \<mapsto> (8 / 100 :: rat, ''user-supplied''), ''rf'' \<mapsto> (2 / 100, ''user-supplied'')] name
        = None"
    by (simp add: sharpe_card_def)
  show ?thesis
    using missing_input_refused [OF unbound, of "\<lambda>c b. Errored ''not reached''"]
    by (auto simp: solve_bound_def missing_inputs_def sharpe_card_def)
qed

end
